theory Spec2Isabelle
  imports Main
begin

section \<open>Strings and formatting as the Go runtime provides them\<close>

text \<open>
  A Go string is a sequence of bytes, here a \<open>string\<close> (one \<open>char\<close> per byte).
  \<open>strings.ToLower\<close> and \<open>strings.ToUpper\<close> belong to the Go standard library: both
  scan the bytes, convert a string of bytes below \<open>utf8.RuneSelf\<close> letter by letter, and
  hand every other string to \<open>strings.Map\<close> with the Unicode case tables. The tables are
  no part of the package under verification, so the result of that last call is a
  parameter (\<open>mapLower\<close>, \<open>mapUpper\<close>) of the functions below.
\<close>

definition RuneSelf :: nat where
  "RuneSelf = 0x80"

definition isASCII :: "string \<Rightarrow> bool" where
  "isASCII s = list_all (\<lambda>c. (of_char c :: nat) < RuneSelf) s"

definition isUpperByte :: "char \<Rightarrow> bool" where
  "isUpperByte c = ((65::nat) \<le> of_char c \<and> (of_char c :: nat) \<le> 90)"

definition isLowerByte :: "char \<Rightarrow> bool" where
  "isLowerByte c = ((97::nat) \<le> of_char c \<and> (of_char c :: nat) \<le> 122)"

definition lowerByte :: "char \<Rightarrow> char" where
  "lowerByte c = (if isUpperByte c then char_of ((of_char c :: nat) + 32) else c)"

definition upperByte :: "char \<Rightarrow> char" where
  "upperByte c = (if isLowerByte c then char_of ((of_char c :: nat) - 32) else c)"

definition ToLower :: "(string \<Rightarrow> string) \<Rightarrow> string \<Rightarrow> string" where
  "ToLower mapLower s =
     (if isASCII s then (if \<not> list_ex isUpperByte s then s else map lowerByte s)
      else mapLower s)"

definition ToUpper :: "(string \<Rightarrow> string) \<Rightarrow> string \<Rightarrow> string" where
  "ToUpper mapUpper s =
     (if isASCII s then (if \<not> list_ex isLowerByte s then s else map upperByte s)
      else mapUpper s)"

text \<open>
  \<open>fmt.Sprintf\<close> restricted to the verb \<open>%s\<close> with string operands, the only use the
  package makes of it: each \<open>%s\<close> is replaced by the next operand, copied as it is, and
  a verb without operand prints \<open>%!s(MISSING)\<close>.
\<close>

fun Sprintf :: "string \<Rightarrow> string list \<Rightarrow> string" where
  "Sprintf [] as = []"
| "Sprintf [c] as = [c]"
| "Sprintf (c # d # f) as =
     (if c = CHR ''%'' \<and> d = CHR ''s'' then
        (case as of
           [] \<Rightarrow> ''%!s(MISSING)'' @ Sprintf f []
         | a # as' \<Rightarrow> a @ Sprintf f as')
      else c # Sprintf (d # f) as)"

text \<open>
  An \<open>error\<close> value: one with a text of its own (\<open>errors.New\<close>, an error of the
  operating system), or \<open>fmt.Errorf(prefix + "%w", err)\<close>, which prints the prefix
  followed by the text of \<open>err\<close> and unwraps to \<open>err\<close>.
\<close>

datatype go_error = ErrorString string | WrapError string go_error

fun Error_text :: "go_error \<Rightarrow> string" where
  "Error_text (ErrorString s) = s"
| "Error_text (WrapError p e) = p @ Error_text e"

fun Unwrap :: "go_error \<Rightarrow> go_error option" where
  "Unwrap (ErrorString s) = None"
| "Unwrap (WrapError p e) = Some e"

fun digits :: "nat \<Rightarrow> string" where
  "digits n = (if n < 10 then [char_of (48 + n)] else digits (n div 10) @ [char_of (48 + n mod 10)])"

definition Itoa :: "int \<Rightarrow> string" where
  "Itoa i = (if i < 0 then CHR ''-'' # digits (nat (- i)) else digits (nat i))"

section \<open>Levels\<close>

text \<open>\<open>type Level int\<close> with its four constants (logger.go, lines 31 to 38).\<close>

type_synonym Level = int

definition LevelDebug :: Level where "LevelDebug = 0"
definition LevelInfo :: Level where "LevelInfo = 1"
definition LevelEvent :: Level where "LevelEvent = 2"
definition LevelDisabled :: Level where "LevelDisabled = 3"

text \<open>
  The levels of the backend. Package \<open>github.com/rs/zerolog\<close> is imported by logger.go
  and is not part of the repository; its \<open>Level\<close> is a signed 8-bit integer whose
  constants are declared there with \<open>iota\<close> in the order debug, info, warn, error,
  fatal, panic, no level, disabled, and trace as \<open>-1\<close>. No arithmetic is done on
  levels, only comparison, so they are integers here.
\<close>

definition zerolog_DebugLevel :: int where "zerolog_DebugLevel = 0"
definition zerolog_InfoLevel :: int where "zerolog_InfoLevel = 1"
definition zerolog_WarnLevel :: int where "zerolog_WarnLevel = 2"
definition zerolog_ErrorLevel :: int where "zerolog_ErrorLevel = 3"
definition zerolog_FatalLevel :: int where "zerolog_FatalLevel = 4"
definition zerolog_PanicLevel :: int where "zerolog_PanicLevel = 5"
definition zerolog_NoLevel :: int where "zerolog_NoLevel = 6"
definition zerolog_Disabled :: int where "zerolog_Disabled = 7"
definition zerolog_TraceLevel :: int where "zerolog_TraceLevel = - 1"

text \<open>\<open>const eventLevel = zerolog.Level(2)\<close> (logger.go, line 41).\<close>

definition eventLevel :: int where "eventLevel = 2"

definition levelMap :: "Level \<rightharpoonup> int" where
  "levelMap = map_of
     [(LevelDebug, zerolog_DebugLevel),
      (LevelInfo, zerolog_InfoLevel),
      (LevelEvent, eventLevel),
      (LevelDisabled, zerolog_Disabled)]"

definition ParseLevel :: "(string \<Rightarrow> string) \<Rightarrow> string \<Rightarrow> Level" where
  "ParseLevel mapLower s =
     (let t = ToLower mapLower s in
      if t = ''debug'' then LevelDebug
      else if t = ''info'' then LevelInfo
      else if t = ''event'' then LevelEvent
      else LevelDisabled)"

text \<open>
  What a case-insensitive variant of a lower-case word is, said without \<open>ToLower\<close>:
  the same length, and at each position the letter of the word or its capital.
\<close>

fun caseVariant :: "string \<Rightarrow> string \<Rightarrow> bool" where
  "caseVariant [] [] = True"
| "caseVariant (c # s) (d # t) = ((c = d \<or> c = upperByte d) \<and> caseVariant s t)"
| "caseVariant [] (d # t) = False"
| "caseVariant (c # s) [] = False"

text \<open>
  \<open>Level.String\<close> of the backend, and the marshalling function that \<open>init\<close> installs in
  \<open>zerolog.LevelFieldMarshalFunc\<close> (logger.go, lines 176 to 183).
\<close>

definition zerolog_Level_String :: "int \<Rightarrow> string" where
  "zerolog_Level_String l =
     (if l = zerolog_TraceLevel then ''trace''
      else if l = zerolog_DebugLevel then ''debug''
      else if l = zerolog_InfoLevel then ''info''
      else if l = zerolog_WarnLevel then ''warn''
      else if l = zerolog_ErrorLevel then ''error''
      else if l = zerolog_FatalLevel then ''fatal''
      else if l = zerolog_PanicLevel then ''panic''
      else if l = zerolog_Disabled then ''disabled''
      else if l = zerolog_NoLevel then ''''
      else Itoa l)"

definition LevelFieldMarshalFunc :: "int \<Rightarrow> string" where
  "LevelFieldMarshalFunc l = (if l = eventLevel then ''event'' else zerolog_Level_String l)"

section \<open>The console level formatter\<close>

text \<open>
  The argument of \<open>FormatLevel\<close> is an \<open>interface{}\<close>: a string or a value of another
  type (logger.go, lines 141 to 167).
\<close>

datatype any = StringVal string | IntVal int | BoolVal bool | NilVal

definition colorReset :: string where "colorReset = CHR 0x1B # ''[0m''"
definition colorRed :: string where "colorRed = CHR 0x1B # ''[31m''"
definition colorGreen :: string where "colorGreen = CHR 0x1B # ''[32m''"
definition colorYellow :: string where "colorYellow = CHR 0x1B # ''[33m''"
definition colorCyan :: string where "colorCyan = CHR 0x1B # ''[36m''"
definition colorWhite :: string where "colorWhite = CHR 0x1B # ''[37m''"

fun FormatLevel :: "(string \<Rightarrow> string) \<Rightarrow> any \<Rightarrow> string" where
  "FormatLevel mapUpper (StringVal s) =
     (if s = ''event'' then colorWhite @ ''EVT'' @ colorReset
      else if s = ''info'' then colorGreen @ ''INF'' @ colorReset
      else if s = ''debug'' then colorCyan @ ''DBG'' @ colorReset
      else if s = ''error'' then colorRed @ ''ERR'' @ colorReset
      else if s = ''warn'' then colorYellow @ ''WRN'' @ colorReset
      else ToUpper mapUpper s)"
| "FormatLevel mapUpper (IntVal i) = ''???''"
| "FormatLevel mapUpper (BoolVal b) = ''???''"
| "FormatLevel mapUpper NilVal = ''???''"

section \<open>The backend as the package uses it\<close>

text \<open>
  A destination is the console writer built around an \<open>io.Writer\<close> (standard output or
  a writer of the caller), or the log file. A \<open>zerolog.Logger\<close> holds the destinations
  it fans out to, its threshold, and whether its context adds the timestamp.
  A record that passes the threshold is handed to every destination; what is handed over is
  kept structured here (level tag, time, error field, message), since turning it into bytes
  is the backend's work. The backend's process-wide level override and its sampling are
  left at their defaults by the package and are not modelled.
\<close>

datatype sink = Stdout | CallerWriter nat

datatype writer = ConsoleWriter sink | FileWriter nat

record zlogger =
  zw :: "writer list"
  zlevel :: int
  ztimestamp :: bool

record zevent =
  ev_level :: string
  ev_time :: "nat option"
  ev_error :: "string option"
  ev_message :: string

text \<open>
  The state of the program: the \<open>logger\<close> structs allocated so far (a pointer is an index
  into \<open>heap\<close>), the number of \<open>NoopLogger\<close> structs allocated, every record delivered to
  a destination, in order, the calls made to the file system, and the clock that the
  timestamp reads.
\<close>

record logger =
  zl :: zlogger
  scope :: string

datatype open_flag = O_APPEND | O_CREATE | O_WRONLY

datatype fsop = MkdirAllCall string nat | OpenFileCall string "open_flag list" nat

record world =
  heap :: "logger list"
  noops :: nat
  written :: "(writer \<times> zevent) list"
  fsops :: "fsop list"
  clock :: nat

definition zerolog_New :: "writer list \<Rightarrow> zlogger" where
  "zerolog_New ws = \<lparr>zw = ws, zlevel = zerolog_TraceLevel, ztimestamp = False\<rparr>"

definition zerolog_Level :: "zlogger \<Rightarrow> int \<Rightarrow> zlogger" where
  "zerolog_Level l lvl = l\<lparr>zlevel := lvl\<rparr>"

definition zerolog_With_Timestamp :: "zlogger \<Rightarrow> zlogger" where
  "zerolog_With_Timestamp l = l\<lparr>ztimestamp := True\<rparr>"

definition zerolog_With :: "zlogger \<Rightarrow> zlogger" where
  "zerolog_With l = l"

definition should :: "zlogger \<Rightarrow> int \<Rightarrow> bool" where
  "should l lvl = (\<not> lvl < zlevel l)"

text \<open>An event under construction is \<open>nil\<close> (\<open>None\<close>) when its level is filtered.\<close>

definition newEvent :: "world \<Rightarrow> zlogger \<Rightarrow> int \<Rightarrow> (writer list \<times> zevent) option" where
  "newEvent w l lvl =
     (if should l lvl then
        Some (zw l,
          \<lparr>ev_level = LevelFieldMarshalFunc lvl,
           ev_time = (if ztimestamp l then Some (clock w) else None),
           ev_error = None,
           ev_message = []\<rparr>)
      else None)"

definition zerolog_Info :: "world \<Rightarrow> zlogger \<Rightarrow> (writer list \<times> zevent) option" where
  "zerolog_Info w l = newEvent w l zerolog_InfoLevel"

definition zerolog_Debug :: "world \<Rightarrow> zlogger \<Rightarrow> (writer list \<times> zevent) option" where
  "zerolog_Debug w l = newEvent w l zerolog_DebugLevel"

definition zerolog_Error :: "world \<Rightarrow> zlogger \<Rightarrow> (writer list \<times> zevent) option" where
  "zerolog_Error w l = newEvent w l zerolog_ErrorLevel"

definition zerolog_WithLevel :: "world \<Rightarrow> zlogger \<Rightarrow> int \<Rightarrow> (writer list \<times> zevent) option" where
  "zerolog_WithLevel w l lvl = (if lvl = zerolog_Disabled then None else newEvent w l lvl)"

fun Err :: "(writer list \<times> zevent) option \<Rightarrow> go_error option \<Rightarrow> (writer list \<times> zevent) option" where
  "Err None err = None"
| "Err (Some e) None = Some e"
| "Err (Some (ws, ev)) (Some err) = Some (ws, ev\<lparr>ev_error := Some (Error_text err)\<rparr>)"

fun Msgf :: "world \<Rightarrow> (writer list \<times> zevent) option \<Rightarrow> string \<Rightarrow> string list \<Rightarrow> world" where
  "Msgf w None format args = w"
| "Msgf w (Some (ws, ev)) format args =
     w\<lparr>written := written w @ map (\<lambda>d. (d, ev\<lparr>ev_message := Sprintf format args\<rparr>)) ws\<rparr>"

section \<open>Construction\<close>

record options =
  filePath :: string
  writer :: sink

definition WithFile :: "string \<Rightarrow> options \<Rightarrow> options" where
  "WithFile path opt = opt\<lparr>filePath := path\<rparr>"

definition WithWriter :: "sink \<Rightarrow> options \<Rightarrow> options" where
  "WithWriter wr opt = opt\<lparr>writer := wr\<rparr>"

text \<open>
  The operating system as \<open>New\<close> sees it: \<open>os.MkdirAll\<close> returns an error or nil,
  \<open>os.OpenFile\<close> a file or an error, \<open>filepath.Dir\<close> the directory of a path.
\<close>

record os_env =
  MkdirAll :: "string \<Rightarrow> nat \<Rightarrow> go_error option"
  OpenFile :: "string \<Rightarrow> open_flag list \<Rightarrow> nat \<Rightarrow> go_error + nat"
  Dir :: "string \<Rightarrow> string"

definition newConsoleWriter :: "sink \<Rightarrow> writer" where
  "newConsoleWriter wr = ConsoleWriter wr"

text \<open>
  A \<open>Logger\<close> interface value is a pointer to a \<open>logger\<close> or to a \<open>NoopLogger\<close>;
  \<open>New\<close> returns the pair of a \<open>Logger\<close> and an \<open>error\<close>, each of which may be nil
  (logger.go, lines 100 to 135). The permissions are the octal 0750 and 0644.
\<close>

datatype Logger = LoggerPtr nat | NoopLoggerPtr nat

definition New :: "os_env \<Rightarrow> world \<Rightarrow> Level \<Rightarrow> (options \<Rightarrow> options) list
    \<Rightarrow> world \<times> Logger option \<times> go_error option" where
  "New os w level opts =
     (let cfg = foldl (\<lambda>c opt. opt c) \<lparr>filePath = [], writer = Stdout\<rparr> opts;
          writers = [newConsoleWriter (writer cfg)];
          opened =
            (if filePath cfg \<noteq> [] then
               (let dir = Dir os (filePath cfg);
                    w1 = w\<lparr>fsops := fsops w @ [MkdirAllCall dir 488]\<rparr>
                in case MkdirAll os dir 488 of
                     Some err \<Rightarrow> (w1, Inl (WrapError ''logger: create log directory: '' err))
                   | None \<Rightarrow>
                       (let flags = [O_APPEND, O_CREATE, O_WRONLY];
                            w2 = w1\<lparr>fsops := fsops w1 @ [OpenFileCall (filePath cfg) flags 420]\<rparr>
                        in case OpenFile os (filePath cfg) flags 420 of
                             Inl err \<Rightarrow> (w2, Inl (WrapError ''logger: open log file: '' err))
                           | Inr f \<Rightarrow> (w2, Inr (writers @ [FileWriter f]))))
             else (w, Inr writers))
      in case opened of
           (w', Inl err) \<Rightarrow> (w', None, Some err)
         | (w', Inr writers') \<Rightarrow>
             (let zlevel = (case levelMap level of Some z \<Rightarrow> z | None \<Rightarrow> zerolog_Disabled);
                  zl = zerolog_With_Timestamp (zerolog_With
                         (zerolog_Level (zerolog_New writers') zlevel))
              in (w'\<lparr>heap := heap w' @ [\<lparr>zl = zl, scope = ''main''\<rparr>]\<rparr>,
                  Some (LoggerPtr (length (heap w'))), None)))"

section \<open>The methods of \<open>logger\<close> and of \<open>NoopLogger\<close>\<close>

text \<open>
  A method of \<open>*logger\<close> reads the struct behind its receiver; a receiver that points
  to no struct makes the call panic (\<open>None\<close>). Lines 185 to 203 of logger.go.
\<close>

definition deref :: "world \<Rightarrow> nat \<Rightarrow> logger option" where
  "deref w a = (if a < length (heap w) then Some (heap w ! a) else None)"

definition logger_Info :: "world \<Rightarrow> nat \<Rightarrow> string \<Rightarrow> world option" where
  "logger_Info w a msg =
     (case deref w a of None \<Rightarrow> None
      | Some l \<Rightarrow> Some (Msgf w (zerolog_Info w (zl l)) ''[%s] %s'' [scope l, msg]))"

definition logger_Event :: "world \<Rightarrow> nat \<Rightarrow> string \<Rightarrow> world option" where
  "logger_Event w a msg =
     (case deref w a of None \<Rightarrow> None
      | Some l \<Rightarrow> Some (Msgf w (zerolog_WithLevel w (zl l) eventLevel) ''-%s (%s)'' [msg, scope l]))"

definition logger_Debug :: "world \<Rightarrow> nat \<Rightarrow> string \<Rightarrow> string \<Rightarrow> world option" where
  "logger_Debug w a key val =
     (case deref w a of None \<Rightarrow> None
      | Some l \<Rightarrow> Some (Msgf w (zerolog_Debug w (zl l)) '' %s: %s (%s)'' [key, val, scope l]))"

definition logger_Error :: "world \<Rightarrow> nat \<Rightarrow> go_error option \<Rightarrow> string \<Rightarrow> world option" where
  "logger_Error w a err msg =
     (case deref w a of None \<Rightarrow> None
      | Some l \<Rightarrow> Some (Msgf w (Err (zerolog_Error w (zl l)) err) ''[%s] %s'' [scope l, msg]))"

definition logger_Scope :: "world \<Rightarrow> nat \<Rightarrow> string \<Rightarrow> (world \<times> Logger) option" where
  "logger_Scope w a name =
     (case deref w a of None \<Rightarrow> None
      | Some l \<Rightarrow>
          Some (w\<lparr>heap := heap w @ [\<lparr>zl = zerolog_With (zl l), scope = name\<rparr>]\<rparr>,
                LoggerPtr (length (heap w))))"

text \<open>\<open>NoopLogger\<close> is an empty struct; its methods do not read their receiver.\<close>

definition NewNoop :: "world \<Rightarrow> world \<times> Logger" where
  "NewNoop w = (w\<lparr>noops := Suc (noops w)\<rparr>, NoopLoggerPtr (noops w))"

definition NoopLogger_Info :: "world \<Rightarrow> nat \<Rightarrow> string \<Rightarrow> world option" where
  "NoopLogger_Info w n msg = Some w"

definition NoopLogger_Event :: "world \<Rightarrow> nat \<Rightarrow> string \<Rightarrow> world option" where
  "NoopLogger_Event w n msg = Some w"

definition NoopLogger_Debug :: "world \<Rightarrow> nat \<Rightarrow> string \<Rightarrow> string \<Rightarrow> world option" where
  "NoopLogger_Debug w n key val = Some w"

definition NoopLogger_Error :: "world \<Rightarrow> nat \<Rightarrow> go_error option \<Rightarrow> string \<Rightarrow> world option" where
  "NoopLogger_Error w n err msg = Some w"

definition NoopLogger_Scope :: "world \<Rightarrow> nat \<Rightarrow> string \<Rightarrow> (world \<times> Logger) option" where
  "NoopLogger_Scope w n name = Some (w, NoopLoggerPtr n)"

text \<open>A call through the \<open>Logger\<close> interface goes to the method of the receiver's type.\<close>

fun Info :: "world \<Rightarrow> Logger \<Rightarrow> string \<Rightarrow> world option" where
  "Info w (LoggerPtr a) msg = logger_Info w a msg"
| "Info w (NoopLoggerPtr n) msg = NoopLogger_Info w n msg"

fun Event :: "world \<Rightarrow> Logger \<Rightarrow> string \<Rightarrow> world option" where
  "Event w (LoggerPtr a) msg = logger_Event w a msg"
| "Event w (NoopLoggerPtr n) msg = NoopLogger_Event w n msg"

fun Debug :: "world \<Rightarrow> Logger \<Rightarrow> string \<Rightarrow> string \<Rightarrow> world option" where
  "Debug w (LoggerPtr a) key val = logger_Debug w a key val"
| "Debug w (NoopLoggerPtr n) key val = NoopLogger_Debug w n key val"

fun Error :: "world \<Rightarrow> Logger \<Rightarrow> go_error option \<Rightarrow> string \<Rightarrow> world option" where
  "Error w (LoggerPtr a) err msg = logger_Error w a err msg"
| "Error w (NoopLoggerPtr n) err msg = NoopLogger_Error w n err msg"

fun Scope :: "world \<Rightarrow> Logger \<Rightarrow> string \<Rightarrow> (world \<times> Logger) option" where
  "Scope w (LoggerPtr a) name = logger_Scope w a name"
| "Scope w (NoopLoggerPtr n) name = NoopLogger_Scope w n name"

text \<open>A sequence of logging calls on one \<open>Logger\<close>, to compare what two of them write.\<close>

datatype call =
  InfoCall string
| EventCall string
| DebugCall string string
| ErrorCall "go_error option" string

fun apply_call :: "world \<Rightarrow> Logger \<Rightarrow> call \<Rightarrow> world option" where
  "apply_call w L (InfoCall msg) = Info w L msg"
| "apply_call w L (EventCall msg) = Event w L msg"
| "apply_call w L (DebugCall key val) = Debug w L key val"
| "apply_call w L (ErrorCall err msg) = Error w L err msg"

fun apply_calls :: "world \<Rightarrow> Logger \<Rightarrow> call list \<Rightarrow> world option" where
  "apply_calls w L [] = Some w"
| "apply_calls w L (c # cs) =
     (case apply_call w L c of None \<Rightarrow> None | Some w' \<Rightarrow> apply_calls w' L cs)"

section \<open>States and environments to run the package on\<close>

text \<open>
  The state of a program that has logged nothing yet, a file system on which every call
  succeeds, one that cannot create the directory, one that cannot open the file, and the
  struct that \<open>New\<close> allocates when it is given no option.
\<close>

definition world0 :: world where
  "world0 = \<lparr>heap = [], noops = 0, written = [], fsops = [], clock = 0\<rparr>"

definition os_ok :: os_env where
  "os_ok = \<lparr>MkdirAll = (\<lambda>dir perm. None), OpenFile = (\<lambda>path flags perm. Inr 3),
            Dir = (\<lambda>path. ''logs'')\<rparr>"

definition os_no_dir :: os_env where
  "os_no_dir = \<lparr>MkdirAll = (\<lambda>dir perm. Some (ErrorString ''permission denied'')),
                OpenFile = (\<lambda>path flags perm. Inr 3), Dir = (\<lambda>path. ''logs'')\<rparr>"

definition os_no_file :: os_env where
  "os_no_file = \<lparr>MkdirAll = (\<lambda>dir perm. None),
                 OpenFile = (\<lambda>path flags perm. Inl (ErrorString ''is a directory'')),
                 Dir = (\<lambda>path. ''logs'')\<rparr>"

definition main_logger :: "Level \<Rightarrow> logger" where
  "main_logger T = \<lparr>zl = \<lparr>zw = [ConsoleWriter Stdout],
       zlevel = (case levelMap T of Some z \<Rightarrow> z | None \<Rightarrow> zerolog_Disabled),
       ztimestamp = True\<rparr>, scope = ''main''\<rparr>"

section \<open>Parsing a level\<close>

lemma lowerByte_eq_iff:
  assumes "(of_char c :: nat) < RuneSelf" and "isLowerByte d"
  shows "lowerByte c = d \<longleftrightarrow> (c = d \<or> c = upperByte d)"
  using assms unfolding lowerByte_def upperByte_def isLowerByte_def isUpperByte_def RuneSelf_def
  by auto

lemma ToLower_ascii: "isASCII s \<Longrightarrow> ToLower mapLower s = map lowerByte s"
  unfolding ToLower_def
  by (auto simp: list_ex_iff lowerByte_def intro: map_idI[symmetric])

lemma map_lowerByte_eq_iff:
  "isASCII s \<Longrightarrow> list_all isLowerByte t \<Longrightarrow> map lowerByte s = t \<longleftrightarrow> caseVariant s t"
proof (induction s t rule: caseVariant.induct)
  case (2 c s d t)
  then show ?case by (auto simp: isASCII_def lowerByte_eq_iff)
qed auto

lemma ToLower_eq_iff:
  "isASCII s \<Longrightarrow> list_all isLowerByte t \<Longrightarrow> ToLower mapLower s = t \<longleftrightarrow> caseVariant s t"
  by (simp add: ToLower_ascii map_lowerByte_eq_iff)

lemma lower_words:
  "list_all isLowerByte ''debug''" "list_all isLowerByte ''info''" "list_all isLowerByte ''event''"
  by (simp_all add: isLowerByte_def)

text \<open>
  Claim C2. \<open>ParseLevel\<close> returns a level for every string and never fails: the result is
  \<open>LevelDebug\<close>, \<open>LevelInfo\<close> or \<open>LevelEvent\<close> exactly when the lower-cased input
  is \<open>debug\<close>, \<open>info\<close> or \<open>event\<close>, and \<open>LevelDisabled\<close> for every other
  string, the empty one included. For a string of ASCII bytes, being lower-cased to a word
  is being a case variant of it, letter by letter.
\<close>

theorem ParseLevel_total_case_insensitive:
  "ParseLevel mapLower s \<in> {LevelDebug, LevelInfo, LevelEvent, LevelDisabled}
   \<and> (ParseLevel mapLower s = LevelDebug \<longleftrightarrow> ToLower mapLower s = ''debug'')
   \<and> (ParseLevel mapLower s = LevelInfo \<longleftrightarrow> ToLower mapLower s = ''info'')
   \<and> (ParseLevel mapLower s = LevelEvent \<longleftrightarrow> ToLower mapLower s = ''event'')
   \<and> (ParseLevel mapLower s = LevelDisabled \<longleftrightarrow>
        ToLower mapLower s \<notin> {''debug'', ''info'', ''event''})
   \<and> ParseLevel mapLower [] = LevelDisabled
   \<and> (isASCII s \<longrightarrow>
        ParseLevel mapLower s =
          (if caseVariant s ''debug'' then LevelDebug
           else if caseVariant s ''info'' then LevelInfo
           else if caseVariant s ''event'' then LevelEvent
           else LevelDisabled))"
proof -
  have lv: "LevelDebug \<noteq> LevelInfo" "LevelDebug \<noteq> LevelEvent" "LevelDebug \<noteq> LevelDisabled"
    "LevelInfo \<noteq> LevelEvent" "LevelInfo \<noteq> LevelDisabled" "LevelEvent \<noteq> LevelDisabled"
    by (simp_all add: LevelDebug_def LevelInfo_def LevelEvent_def LevelDisabled_def)
  have a: "ParseLevel mapLower s \<in> {LevelDebug, LevelInfo, LevelEvent, LevelDisabled}"
    by (simp add: ParseLevel_def Let_def)
  have b: "ParseLevel mapLower s = LevelDebug \<longleftrightarrow> ToLower mapLower s = ''debug''"
    using lv by (auto simp: ParseLevel_def Let_def)
  have c: "ParseLevel mapLower s = LevelInfo \<longleftrightarrow> ToLower mapLower s = ''info''"
    using lv by (auto simp: ParseLevel_def Let_def)
  have d: "ParseLevel mapLower s = LevelEvent \<longleftrightarrow> ToLower mapLower s = ''event''"
    using lv by (auto simp: ParseLevel_def Let_def)
  have e: "ParseLevel mapLower s = LevelDisabled \<longleftrightarrow>
        ToLower mapLower s \<notin> {''debug'', ''info'', ''event''}"
    using lv by (auto simp: ParseLevel_def Let_def)
  have f: "ParseLevel mapLower [] = LevelDisabled"
    by (simp add: ParseLevel_def ToLower_def isASCII_def)
  have g: "ParseLevel mapLower s =
          (if caseVariant s ''debug'' then LevelDebug
           else if caseVariant s ''info'' then LevelInfo
           else if caseVariant s ''event'' then LevelEvent
           else LevelDisabled)" if "isASCII s"
    unfolding ParseLevel_def Let_def
    by (simp only: ToLower_eq_iff[OF that lower_words(1)] ToLower_eq_iff[OF that lower_words(2)]
          ToLower_eq_iff[OF that lower_words(3)])
  from a b c d e f g show ?thesis by blast
qed

theorem ParseLevel_total_case_insensitive_witness:
  "isASCII ''DeBuG'' \<and> ParseLevel (\<lambda>s. s) ''DeBuG'' = LevelDebug"
proof -
  have h: "isASCII ''DeBuG''"
    by (simp add: isASCII_def RuneSelf_def)
  have v: "caseVariant ''DeBuG'' ''debug''"
    by (simp add: upperByte_def isLowerByte_def char_of_eq_iff eq_commute [of "CHR ''D''"]
        eq_commute [of "CHR ''B''"] eq_commute [of "CHR ''G''"])
  from ParseLevel_total_case_insensitive [of "\<lambda>s. s" "''DeBuG''"] h v
  show ?thesis by simp
qed

section \<open>What the four operations deliver\<close>

lemma Sprintf_bracket: "Sprintf ''[%s] %s'' [s, m] = ''['' @ s @ ''] '' @ m"
  by simp

lemma Sprintf_event: "Sprintf ''-%s (%s)'' [m, s] = ''-'' @ m @ '' ('' @ s @ '')''"
  by simp

lemma Sprintf_debug: "Sprintf '' %s: %s (%s)'' [k, v, s] = '' '' @ k @ '': '' @ v @ '' ('' @ s @ '')''"
  by simp

lemma marshal_tags:
  "LevelFieldMarshalFunc zerolog_InfoLevel = ''info''"
  "LevelFieldMarshalFunc eventLevel = ''event''"
  "LevelFieldMarshalFunc zerolog_DebugLevel = ''debug''"
  "LevelFieldMarshalFunc zerolog_ErrorLevel = ''error''"
  by (simp_all add: LevelFieldMarshalFunc_def zerolog_Level_String_def eventLevel_def
      zerolog_InfoLevel_def zerolog_DebugLevel_def zerolog_ErrorLevel_def zerolog_TraceLevel_def
      zerolog_WarnLevel_def)

lemma logger_Info_eq:
  assumes "a < length (heap w)"
  shows "Info w (LoggerPtr a) m =
    Some (if zerolog_InfoLevel < zlevel (zl (heap w ! a)) then w
          else w\<lparr>written := written w @
                 map (\<lambda>d. (d, \<lparr>ev_level = ''info'',
                               ev_time = (if ztimestamp (zl (heap w ! a)) then Some (clock w) else None),
                               ev_error = None,
                               ev_message = ''['' @ scope (heap w ! a) @ ''] '' @ m\<rparr>))
                     (zw (zl (heap w ! a)))\<rparr>)"
  using assms
  by (simp add: logger_Info_def deref_def zerolog_Info_def newEvent_def should_def marshal_tags
      del: Sprintf.simps add: Sprintf_bracket)

lemma logger_Event_eq:
  assumes "a < length (heap w)"
  shows "Event w (LoggerPtr a) m =
    Some (if eventLevel < zlevel (zl (heap w ! a)) then w
          else w\<lparr>written := written w @
                 map (\<lambda>d. (d, \<lparr>ev_level = ''event'',
                               ev_time = (if ztimestamp (zl (heap w ! a)) then Some (clock w) else None),
                               ev_error = None,
                               ev_message = ''-'' @ m @ '' ('' @ scope (heap w ! a) @ '')''\<rparr>))
                     (zw (zl (heap w ! a)))\<rparr>)"
  using assms
  by (simp add: logger_Event_def deref_def zerolog_WithLevel_def newEvent_def should_def marshal_tags
      del: Sprintf.simps add: Sprintf_event)
     (simp add: eventLevel_def zerolog_Disabled_def)

lemma logger_Debug_eq:
  assumes "a < length (heap w)"
  shows "Debug w (LoggerPtr a) k v =
    Some (if zerolog_DebugLevel < zlevel (zl (heap w ! a)) then w
          else w\<lparr>written := written w @
                 map (\<lambda>d. (d, \<lparr>ev_level = ''debug'',
                               ev_time = (if ztimestamp (zl (heap w ! a)) then Some (clock w) else None),
                               ev_error = None,
                               ev_message = '' '' @ k @ '': '' @ v @ '' ('' @ scope (heap w ! a) @ '')''\<rparr>))
                     (zw (zl (heap w ! a)))\<rparr>)"
  using assms
  by (simp add: logger_Debug_def deref_def zerolog_Debug_def newEvent_def should_def marshal_tags
      del: Sprintf.simps add: Sprintf_debug)

lemma logger_Error_eq:
  assumes "a < length (heap w)"
  shows "Error w (LoggerPtr a) e m =
    Some (if zerolog_ErrorLevel < zlevel (zl (heap w ! a)) then w
          else w\<lparr>written := written w @
                 map (\<lambda>d. (d, \<lparr>ev_level = ''error'',
                               ev_time = (if ztimestamp (zl (heap w ! a)) then Some (clock w) else None),
                               ev_error = map_option Error_text e,
                               ev_message = ''['' @ scope (heap w ! a) @ ''] '' @ m\<rparr>))
                     (zw (zl (heap w ! a)))\<rparr>)"
  using assms
  by (cases e)
     (simp_all add: logger_Error_def deref_def zerolog_Error_def newEvent_def should_def marshal_tags
      del: Sprintf.simps add: Sprintf_bracket)

lemma New_success:
  assumes "New os w level opts = (w1, Some L, err)"
  shows "err = None \<and> L = LoggerPtr (length (heap w)) \<and> length (heap w1) = Suc (length (heap w))
    \<and> written w1 = written w
    \<and> zlevel (zl (heap w1 ! length (heap w))) =
        (case levelMap level of Some z \<Rightarrow> z | None \<Rightarrow> zerolog_Disabled)
    \<and> zw (zl (heap w1 ! length (heap w))) \<noteq> []
    \<and> ztimestamp (zl (heap w1 ! length (heap w)))
    \<and> scope (heap w1 ! length (heap w)) = ''main''"
  using assms
  unfolding New_def Let_def
  by (auto split: if_splits option.splits sum.splits
      simp: zerolog_With_Timestamp_def zerolog_With_def zerolog_Level_def zerolog_New_def)

lemma levelMap_values:
  "levelMap LevelDebug = Some zerolog_DebugLevel"
  "levelMap LevelInfo = Some zerolog_InfoLevel"
  "levelMap LevelEvent = Some eventLevel"
  "levelMap LevelDisabled = Some zerolog_Disabled"
  by (simp_all add: levelMap_def LevelDebug_def LevelInfo_def LevelEvent_def LevelDisabled_def)

lemma levelMap_unmapped:
  "level \<notin> {LevelDebug, LevelInfo, LevelEvent, LevelDisabled} \<Longrightarrow> levelMap level = None"
  by (simp add: levelMap_def)

lemmas level_values = LevelDebug_def LevelInfo_def LevelEvent_def LevelDisabled_def
  zerolog_DebugLevel_def zerolog_InfoLevel_def zerolog_WarnLevel_def zerolog_ErrorLevel_def
  zerolog_Disabled_def eventLevel_def

text \<open>
  Claim C1. For a \<open>Logger\<close> that \<open>New\<close> built at one of the four thresholds \<open>T\<close>, in any
  later state that still holds its struct: a \<open>Debug\<close>, \<open>Info\<close> or \<open>Event\<close> call delivers
  records exactly when its level is at least \<open>T\<close>, and an \<open>Error\<close> call exactly when
  \<open>T\<close> is not \<open>LevelDisabled\<close>. At \<open>LevelInfo\<close> a \<open>Debug\<close> call changes nothing and an
  \<open>Info\<close> call delivers a record with the message; at \<open>LevelDisabled\<close> none of the four
  calls changes the state.
\<close>

theorem level_filtering:
  assumes T: "T \<in> {LevelDebug, LevelInfo, LevelEvent, LevelDisabled}"
    and N: "New os w0 T opts = (w1, Some (LoggerPtr a), err)"
    and A: "a < length (heap w)"
    and H: "heap w ! a = heap w1 ! a"
  shows "(\<exists>w'. Debug w (LoggerPtr a) k v = Some w' \<and> (written w' \<noteq> written w \<longleftrightarrow> LevelDebug \<ge> T))
    \<and> (\<exists>w'. Info w (LoggerPtr a) m = Some w' \<and> (written w' \<noteq> written w \<longleftrightarrow> LevelInfo \<ge> T))
    \<and> (\<exists>w'. Event w (LoggerPtr a) m = Some w' \<and> (written w' \<noteq> written w \<longleftrightarrow> LevelEvent \<ge> T))
    \<and> (\<exists>w'. Error w (LoggerPtr a) e m = Some w' \<and> (written w' \<noteq> written w \<longleftrightarrow> T \<noteq> LevelDisabled))
    \<and> (T = LevelInfo \<longrightarrow>
          Debug w (LoggerPtr a) k v = Some w
          \<and> (\<exists>w' d ev. Info w (LoggerPtr a) m = Some w' \<and> (d, ev) \<in> set (written w')
                \<and> ev_message ev = ''[main] '' @ m))
    \<and> (T = LevelDisabled \<longrightarrow>
          Debug w (LoggerPtr a) k v = Some w \<and> Info w (LoggerPtr a) m = Some w
          \<and> Event w (LoggerPtr a) m = Some w \<and> Error w (LoggerPtr a) e m = Some w)"
proof -
  from New_success [OF N] have a: "a = length (heap w0)"
    and z: "zlevel (zl (heap w1 ! a)) = (case levelMap T of Some z \<Rightarrow> z | None \<Rightarrow> zerolog_Disabled)"
    and ne: "zw (zl (heap w1 ! a)) \<noteq> []"
    and sc: "scope (heap w1 ! a) = ''main''"
    by simp_all
  obtain d ds where ds: "zw (zl (heap w1 ! a)) = d # ds"
    using ne by (cases "zw (zl (heap w1 ! a))") auto
  from T consider "T = LevelDebug" | "T = LevelInfo" | "T = LevelEvent" | "T = LevelDisabled"
    by auto
  then show ?thesis
  proof cases
    case 1
    with z have zv: "zlevel (zl (heap w1 ! a)) = zerolog_DebugLevel" by (simp add: levelMap_values)
    show ?thesis
      unfolding logger_Debug_eq [OF A] logger_Info_eq [OF A] logger_Event_eq [OF A]
        logger_Error_eq [OF A] H zv ds
      using 1 by (simp add: level_values)
  next
    case 2
    with z have zv: "zlevel (zl (heap w1 ! a)) = zerolog_InfoLevel" by (simp add: levelMap_values)
    define ev where "ev = \<lparr>ev_level = ''info'',
        ev_time = (if ztimestamp (zl (heap w1 ! a)) then Some (clock w) else None),
        ev_error = None, ev_message = ''[main] '' @ m\<rparr>"
    have "Info w (LoggerPtr a) m = Some (w\<lparr>written := written w @ map (\<lambda>d. (d, ev)) (d # ds)\<rparr>)"
      unfolding logger_Info_eq [OF A] H zv ds sc ev_def by (simp add: level_values)
    moreover have "(d, ev) \<in> set (written (w\<lparr>written := written w @ map (\<lambda>d. (d, ev)) (d # ds)\<rparr>))"
      by simp
    moreover have "ev_message ev = ''[main] '' @ m"
      by (simp add: ev_def)
    ultimately have "\<exists>w' d ev. Info w (LoggerPtr a) m = Some w' \<and> (d, ev) \<in> set (written w')
        \<and> ev_message ev = ''[main] '' @ m"
      by blast
    moreover have "Debug w (LoggerPtr a) k v = Some w"
      unfolding logger_Debug_eq [OF A] H zv by (simp add: level_values)
    moreover have "(\<exists>w'. Debug w (LoggerPtr a) k v = Some w' \<and> (written w' \<noteq> written w \<longleftrightarrow> LevelDebug \<ge> T))
    \<and> (\<exists>w'. Info w (LoggerPtr a) m = Some w' \<and> (written w' \<noteq> written w \<longleftrightarrow> LevelInfo \<ge> T))
    \<and> (\<exists>w'. Event w (LoggerPtr a) m = Some w' \<and> (written w' \<noteq> written w \<longleftrightarrow> LevelEvent \<ge> T))
    \<and> (\<exists>w'. Error w (LoggerPtr a) e m = Some w' \<and> (written w' \<noteq> written w \<longleftrightarrow> T \<noteq> LevelDisabled))"
      unfolding logger_Debug_eq [OF A] logger_Info_eq [OF A] logger_Event_eq [OF A]
        logger_Error_eq [OF A] H zv ds
      using 2 by (simp add: level_values)
    ultimately show ?thesis
      using 2 by (simp add: level_values)
  next
    case 3
    with z have zv: "zlevel (zl (heap w1 ! a)) = eventLevel" by (simp add: levelMap_values)
    show ?thesis
      unfolding logger_Debug_eq [OF A] logger_Info_eq [OF A] logger_Event_eq [OF A]
        logger_Error_eq [OF A] H zv ds
      using 3 by (simp add: level_values)
  next
    case 4
    with z have zv: "zlevel (zl (heap w1 ! a)) = zerolog_Disabled" by (simp add: levelMap_values)
    show ?thesis
      unfolding logger_Debug_eq [OF A] logger_Info_eq [OF A] logger_Event_eq [OF A]
        logger_Error_eq [OF A] H zv ds
      using 4 by (simp add: level_values)
  qed
qed

lemmas zerolog_values = zerolog_DebugLevel_def zerolog_InfoLevel_def zerolog_WarnLevel_def
  zerolog_ErrorLevel_def zerolog_Disabled_def eventLevel_def

lemma New_world0:
  "New os_ok world0 T [] = (world0\<lparr>heap := [main_logger T]\<rparr>, Some (LoggerPtr 0), None)"
  by (simp add: New_def world0_def main_logger_def newConsoleWriter_def zerolog_With_Timestamp_def
      zerolog_With_def zerolog_Level_def zerolog_New_def)

theorem level_filtering_witness:
  "LevelInfo \<in> {LevelDebug, LevelInfo, LevelEvent, LevelDisabled}
   \<and> New os_ok world0 LevelInfo [] = (world0\<lparr>heap := [main_logger LevelInfo]\<rparr>, Some (LoggerPtr 0), None)
   \<and> Debug (world0\<lparr>heap := [main_logger LevelInfo]\<rparr>) (LoggerPtr 0) ''should-not-appear'' ''value''
       = Some (world0\<lparr>heap := [main_logger LevelInfo]\<rparr>)"
proof -
  have T: "LevelInfo \<in> {LevelDebug, LevelInfo, LevelEvent, LevelDisabled}" by simp
  have A: "0 < length (heap (world0\<lparr>heap := [main_logger LevelInfo]\<rparr>))" by simp
  from level_filtering [OF T New_world0 A refl, of "''should-not-appear''" "''value''"] New_world0 T
  show ?thesis by simp
qed

text \<open>
  Claim C3. On a \<open>logger\<close> with scope \<open>s\<close>, a call that passes the threshold delivers to
  every destination one record whose message is \<open>[s] m\<close> for \<open>Info\<close>, \<open>-m (s)\<close> for
  \<open>Event\<close>, \<open> k: v (s)\<close> for \<open>Debug\<close>, and \<open>[s] m\<close> for \<open>Error\<close>, whose error
  goes into the record's error field and not into the message.
\<close>

theorem message_rendering:
  assumes "a < length (heap w)"
  shows "Info w (LoggerPtr a) m =
      Some (if zerolog_InfoLevel < zlevel (zl (heap w ! a)) then w
            else w\<lparr>written := written w @
                   map (\<lambda>d. (d, \<lparr>ev_level = ''info'',
                                 ev_time = (if ztimestamp (zl (heap w ! a)) then Some (clock w) else None),
                                 ev_error = None,
                                 ev_message = ''['' @ scope (heap w ! a) @ ''] '' @ m\<rparr>))
                       (zw (zl (heap w ! a)))\<rparr>)
    \<and> Event w (LoggerPtr a) m =
      Some (if eventLevel < zlevel (zl (heap w ! a)) then w
            else w\<lparr>written := written w @
                   map (\<lambda>d. (d, \<lparr>ev_level = ''event'',
                                 ev_time = (if ztimestamp (zl (heap w ! a)) then Some (clock w) else None),
                                 ev_error = None,
                                 ev_message = ''-'' @ m @ '' ('' @ scope (heap w ! a) @ '')''\<rparr>))
                       (zw (zl (heap w ! a)))\<rparr>)
    \<and> Debug w (LoggerPtr a) k v =
      Some (if zerolog_DebugLevel < zlevel (zl (heap w ! a)) then w
            else w\<lparr>written := written w @
                   map (\<lambda>d. (d, \<lparr>ev_level = ''debug'',
                                 ev_time = (if ztimestamp (zl (heap w ! a)) then Some (clock w) else None),
                                 ev_error = None,
                                 ev_message = '' '' @ k @ '': '' @ v @ '' ('' @ scope (heap w ! a) @ '')''\<rparr>))
                       (zw (zl (heap w ! a)))\<rparr>)
    \<and> Error w (LoggerPtr a) e m =
      Some (if zerolog_ErrorLevel < zlevel (zl (heap w ! a)) then w
            else w\<lparr>written := written w @
                   map (\<lambda>d. (d, \<lparr>ev_level = ''error'',
                                 ev_time = (if ztimestamp (zl (heap w ! a)) then Some (clock w) else None),
                                 ev_error = map_option Error_text e,
                                 ev_message = ''['' @ scope (heap w ! a) @ ''] '' @ m\<rparr>))
                       (zw (zl (heap w ! a)))\<rparr>)"
  by (simp only: logger_Info_eq [OF assms] logger_Event_eq [OF assms] logger_Debug_eq [OF assms]
      logger_Error_eq [OF assms] simp_thms)

theorem message_rendering_witness:
  "0 < length (heap (world0\<lparr>heap := [main_logger LevelDebug]\<rparr>))
   \<and> Info (world0\<lparr>heap := [main_logger LevelDebug]\<rparr>) (LoggerPtr 0) ''info msg'' =
       Some (world0\<lparr>heap := [main_logger LevelDebug],
          written := [(ConsoleWriter Stdout, \<lparr>ev_level = ''info'', ev_time = Some 0,
             ev_error = None, ev_message = ''[main] info msg''\<rparr>)]\<rparr>)
   \<and> Event (world0\<lparr>heap := [main_logger LevelDebug]\<rparr>) (LoggerPtr 0) ''event msg'' =
       Some (world0\<lparr>heap := [main_logger LevelDebug],
          written := [(ConsoleWriter Stdout, \<lparr>ev_level = ''event'', ev_time = Some 0,
             ev_error = None, ev_message = ''-event msg (main)''\<rparr>)]\<rparr>)
   \<and> Debug (world0\<lparr>heap := [main_logger LevelDebug]\<rparr>) (LoggerPtr 0) ''key'' ''value'' =
       Some (world0\<lparr>heap := [main_logger LevelDebug],
          written := [(ConsoleWriter Stdout, \<lparr>ev_level = ''debug'', ev_time = Some 0,
             ev_error = None, ev_message = '' key: value (main)''\<rparr>)]\<rparr>)
   \<and> Error (world0\<lparr>heap := [main_logger LevelDebug]\<rparr>) (LoggerPtr 0)
         (Some (ErrorString ''test error'')) ''error msg'' =
       Some (world0\<lparr>heap := [main_logger LevelDebug],
          written := [(ConsoleWriter Stdout, \<lparr>ev_level = ''error'', ev_time = Some 0,
             ev_error = Some ''test error'', ev_message = ''[main] error msg''\<rparr>)]\<rparr>)"
proof -
  have A: "0 < length (heap (world0\<lparr>heap := [main_logger LevelDebug]\<rparr>))" by simp
  have z: "zlevel (zl (main_logger LevelDebug)) = 0" "ztimestamp (zl (main_logger LevelDebug))"
    "zw (zl (main_logger LevelDebug)) = [ConsoleWriter Stdout]" "scope (main_logger LevelDebug) = ''main''"
    by (simp_all add: main_logger_def levelMap_values zerolog_DebugLevel_def)
  from message_rendering [OF A, of "''info msg''"]
  have 1: "Info (world0\<lparr>heap := [main_logger LevelDebug]\<rparr>) (LoggerPtr 0) ''info msg'' =
       Some (world0\<lparr>heap := [main_logger LevelDebug],
          written := [(ConsoleWriter Stdout, \<lparr>ev_level = ''info'', ev_time = Some 0,
             ev_error = None, ev_message = ''[main] info msg''\<rparr>)]\<rparr>)"
    by (simp add: z zerolog_values world0_def)
  from message_rendering [OF A, of "''event msg''"]
  have 2: "Event (world0\<lparr>heap := [main_logger LevelDebug]\<rparr>) (LoggerPtr 0) ''event msg'' =
       Some (world0\<lparr>heap := [main_logger LevelDebug],
          written := [(ConsoleWriter Stdout, \<lparr>ev_level = ''event'', ev_time = Some 0,
             ev_error = None, ev_message = ''-event msg (main)''\<rparr>)]\<rparr>)"
    by (simp add: z zerolog_values world0_def)
  from message_rendering [OF A, of _ "''key''" "''value''"]
  have 3: "Debug (world0\<lparr>heap := [main_logger LevelDebug]\<rparr>) (LoggerPtr 0) ''key'' ''value'' =
       Some (world0\<lparr>heap := [main_logger LevelDebug],
          written := [(ConsoleWriter Stdout, \<lparr>ev_level = ''debug'', ev_time = Some 0,
             ev_error = None, ev_message = '' key: value (main)''\<rparr>)]\<rparr>)"
    by (simp add: z zerolog_values world0_def)
  from message_rendering [OF A, of "''error msg''" _ _ "Some (ErrorString ''test error'')"]
  have 4: "Error (world0\<lparr>heap := [main_logger LevelDebug]\<rparr>) (LoggerPtr 0)
         (Some (ErrorString ''test error'')) ''error msg'' =
       Some (world0\<lparr>heap := [main_logger LevelDebug],
          written := [(ConsoleWriter Stdout, \<lparr>ev_level = ''error'', ev_time = Some 0,
             ev_error = Some ''test error'', ev_message = ''[main] error msg''\<rparr>)]\<rparr>)"
    by (simp add: z zerolog_values world0_def)
  from A 1 2 3 4 show ?thesis by blast
qed

section \<open>Construction and its errors\<close>

text \<open>
  Claim C5. With a non-empty file path, a failure of \<open>os.MkdirAll\<close> makes \<open>New\<close> return a
  nil \<open>Logger\<close> and the error \<open>logger: create log directory: \<close> wrapping the error of the
  operating system, and a failure of \<open>os.OpenFile\<close> a nil \<open>Logger\<close> and the error
  \<open>logger: open log file: \<close> wrapping it; the two errors differ, no \<open>logger\<close> is
  allocated, and \<open>New\<close> returns an error in these two cases only, so never when the file
  path is empty.
\<close>

theorem New_errors:
  "(let cfg = foldl (\<lambda>c opt. opt c) \<lparr>filePath = [], writer = Stdout\<rparr> opts;
        r = New os w level opts
    in (filePath cfg \<noteq> [] \<and> MkdirAll os (Dir os (filePath cfg)) 488 = Some e \<longrightarrow>
            fst (snd r) = None
            \<and> snd (snd r) = Some (WrapError ''logger: create log directory: '' e)
            \<and> heap (fst r) = heap w)
    \<and> (filePath cfg \<noteq> [] \<and> MkdirAll os (Dir os (filePath cfg)) 488 = None
          \<and> OpenFile os (filePath cfg) [O_APPEND, O_CREATE, O_WRONLY] 420 = Inl e \<longrightarrow>
            fst (snd r) = None
            \<and> snd (snd r) = Some (WrapError ''logger: open log file: '' e)
            \<and> heap (fst r) = heap w)
    \<and> WrapError ''logger: create log directory: '' e \<noteq> WrapError ''logger: open log file: '' e'
    \<and> Unwrap (WrapError ''logger: create log directory: '' e) = Some e
    \<and> Unwrap (WrapError ''logger: open log file: '' e) = Some e
    \<and> Error_text (WrapError ''logger: create log directory: '' e) =
          ''logger: create log directory: '' @ Error_text e
    \<and> Error_text (WrapError ''logger: open log file: '' e) =
          ''logger: open log file: '' @ Error_text e
    \<and> (snd (snd r) \<noteq> None \<longrightarrow>
          filePath cfg \<noteq> []
          \<and> (MkdirAll os (Dir os (filePath cfg)) 488 \<noteq> None
              \<or> (\<exists>x. OpenFile os (filePath cfg) [O_APPEND, O_CREATE, O_WRONLY] 420 = Inl x)))
    \<and> (fst (snd r) = None \<longleftrightarrow> snd (snd r) \<noteq> None)
    \<and> (filePath cfg = [] \<longrightarrow>
          snd (snd r) = None \<and> fst (snd r) = Some (LoggerPtr (length (heap w)))))"
  unfolding New_def Let_def
  by (auto split: option.splits sum.splits)

theorem New_errors_witness:
  "fst (snd (New os_no_dir world0 LevelInfo [WithFile ''logs/app.log''])) = None
   \<and> snd (snd (New os_no_dir world0 LevelInfo [WithFile ''logs/app.log''])) =
        Some (WrapError ''logger: create log directory: '' (ErrorString ''permission denied''))
   \<and> fst (snd (New os_no_file world0 LevelInfo [WithFile ''logs/app.log''])) = None
   \<and> snd (snd (New os_no_file world0 LevelInfo [WithFile ''logs/app.log''])) =
        Some (WrapError ''logger: open log file: '' (ErrorString ''is a directory''))
   \<and> snd (snd (New os_no_dir world0 LevelInfo [WithWriter (CallerWriter 0)])) = None"
proof -
  have 1: "fst (snd (New os_no_dir world0 LevelInfo [WithFile ''logs/app.log''])) = None
     \<and> snd (snd (New os_no_dir world0 LevelInfo [WithFile ''logs/app.log''])) =
        Some (WrapError ''logger: create log directory: '' (ErrorString ''permission denied''))"
    using New_errors [where opts = "[WithFile ''logs/app.log'']" and os = os_no_dir
        and e = "ErrorString ''permission denied''" and w = world0 and level = LevelInfo]
    by (simp add: Let_def WithFile_def os_no_dir_def)
  have 2: "fst (snd (New os_no_file world0 LevelInfo [WithFile ''logs/app.log''])) = None
     \<and> snd (snd (New os_no_file world0 LevelInfo [WithFile ''logs/app.log''])) =
        Some (WrapError ''logger: open log file: '' (ErrorString ''is a directory''))"
    using New_errors [where opts = "[WithFile ''logs/app.log'']" and os = os_no_file
        and e = "ErrorString ''is a directory''" and w = world0 and level = LevelInfo]
    by (simp add: Let_def WithFile_def os_no_file_def)
  have 3: "snd (snd (New os_no_dir world0 LevelInfo [WithWriter (CallerWriter 0)])) = None"
    using New_errors [where opts = "[WithWriter (CallerWriter 0)]" and os = os_no_dir
        and w = world0 and level = LevelInfo]
    by (simp add: Let_def WithWriter_def)
  from 1 2 3 show ?thesis by simp
qed

text \<open>
  Claim C10. \<open>New\<close> with the option \<open>WithFile("")\<close> returns what it returns without any
  option: a nil error and a \<open>Logger\<close> whose only destination is the console writer on
  standard output, with no call to the file system.
\<close>

theorem New_empty_path:
  "New os w level [WithFile []] = New os w level []
   \<and> New os w level [WithFile []] =
       (w\<lparr>heap := heap w @
            [\<lparr>zl = \<lparr>zw = [ConsoleWriter Stdout],
                    zlevel = (case levelMap level of Some z \<Rightarrow> z | None \<Rightarrow> zerolog_Disabled),
                    ztimestamp = True\<rparr>,
              scope = ''main''\<rparr>]\<rparr>,
        Some (LoggerPtr (length (heap w))), None)
   \<and> fsops (fst (New os w level [WithFile []])) = fsops w"
  by (simp add: New_def WithFile_def newConsoleWriter_def zerolog_With_Timestamp_def
      zerolog_With_def zerolog_Level_def zerolog_New_def)

section \<open>The level of events\<close>

text \<open>
  Claim C4. \<open>eventLevel\<close> is above the backend's info level but it is not below its warn
  level: it is the warn level itself, and the function that \<open>init\<close> installs gives the
  backend's warn level the tag \<open>event\<close>.
\<close>

theorem eventLevel_is_WarnLevel:
  "eventLevel = zerolog_WarnLevel \<and> zerolog_InfoLevel < eventLevel
   \<and> LevelFieldMarshalFunc zerolog_WarnLevel = ''event''"
  by (simp add: eventLevel_def zerolog_WarnLevel_def zerolog_InfoLevel_def LevelFieldMarshalFunc_def)

section \<open>Scopes\<close>

text \<open>
  Claim C6. \<open>Scope\<close> on a \<open>logger\<close> allocates a new struct, at an address other than the
  receiver's, with the receiver's backend (destinations, threshold, context) and with the
  given name as its scope, whatever the receiver's scope was; every struct allocated before,
  the receiver among them, is as it was, and nothing is written.
\<close>

theorem Scope_replaces_label:
  assumes "a < length (heap w)"
  shows "\<exists>w'. Scope w (LoggerPtr a) n = Some (w', LoggerPtr (length (heap w)))
      \<and> LoggerPtr (length (heap w)) \<noteq> LoggerPtr a
      \<and> length (heap w') = Suc (length (heap w))
      \<and> zl (heap w' ! length (heap w)) = zl (heap w ! a)
      \<and> scope (heap w' ! length (heap w)) = n
      \<and> take (length (heap w)) (heap w') = heap w
      \<and> heap w' ! a = heap w ! a
      \<and> written w' = written w \<and> fsops w' = fsops w \<and> noops w' = noops w \<and> clock w' = clock w"
  using assms
  by (simp add: logger_Scope_def deref_def zerolog_With_def nth_append)

theorem Scope_replaces_label_witness:
  "0 < length (heap (world0\<lparr>heap := [main_logger LevelInfo]\<rparr>))
   \<and> Scope (world0\<lparr>heap := [main_logger LevelInfo]\<rparr>) (LoggerPtr 0) ''db'' =
       Some (world0\<lparr>heap := [main_logger LevelInfo, (main_logger LevelInfo)\<lparr>scope := ''db''\<rparr>]\<rparr>,
             LoggerPtr 1)"
proof -
  have A: "0 < length (heap (world0\<lparr>heap := [main_logger LevelInfo]\<rparr>))" by simp
  from Scope_replaces_label [OF A, of "''db''"]
  obtain w' where S: "Scope (world0\<lparr>heap := [main_logger LevelInfo]\<rparr>) (LoggerPtr 0) ''db'' =
      Some (w', LoggerPtr 1)"
    and "scope (heap w' ! 1) = ''db''"
    by auto
  then have "Scope (world0\<lparr>heap := [main_logger LevelInfo]\<rparr>) (LoggerPtr 0) ''db'' =
       Some (world0\<lparr>heap := [main_logger LevelInfo, (main_logger LevelInfo)\<lparr>scope := ''db''\<rparr>]\<rparr>,
             LoggerPtr 1)"
    by (simp add: logger_Scope_def deref_def zerolog_With_def main_logger_def)
  with A show ?thesis by simp
qed

lemma apply_call_same_struct:
  assumes "a < length (heap w)" and "b < length (heap w)" and "heap w ! a = heap w ! b"
  shows "apply_call w (LoggerPtr a) c = apply_call w (LoggerPtr b) c"
  using assms
  by (cases c)
     (simp_all add: logger_Info_def logger_Event_def logger_Debug_def logger_Error_def deref_def)

lemma apply_call_heap:
  assumes "a < length (heap w)"
  shows "\<exists>w'. apply_call w (LoggerPtr a) c = Some w' \<and> heap w' = heap w"
proof (cases c)
  case (InfoCall m)
  then show ?thesis using assms
    by (cases "zerolog_Info w (zl (heap w ! a))") (auto simp: logger_Info_def deref_def)
next
  case (EventCall m)
  then show ?thesis using assms
    by (cases "zerolog_WithLevel w (zl (heap w ! a)) eventLevel") (auto simp: logger_Event_def deref_def)
next
  case (DebugCall k v)
  then show ?thesis using assms
    by (cases "zerolog_Debug w (zl (heap w ! a))") (auto simp: logger_Debug_def deref_def)
next
  case (ErrorCall e m)
  then show ?thesis using assms
    by (cases "Err (zerolog_Error w (zl (heap w ! a))) e") (auto simp: logger_Error_def deref_def)
qed

lemma apply_calls_same_struct:
  assumes "a < length (heap w)" and "b < length (heap w)" and "heap w ! a = heap w ! b"
  shows "apply_calls w (LoggerPtr a) cs = apply_calls w (LoggerPtr b) cs
     \<and> (\<exists>w'. apply_calls w (LoggerPtr a) cs = Some w')"
  using assms
proof (induction cs arbitrary: w)
  case Nil
  then show ?case by simp
next
  case (Cons c cs)
  from apply_call_heap [OF Cons.prems(1), of c]
  obtain w' where w': "apply_call w (LoggerPtr a) c = Some w'" and h: "heap w' = heap w"
    by blast
  from apply_call_same_struct [OF Cons.prems, of c] w'
  have w'': "apply_call w (LoggerPtr b) c = Some w'" by simp
  note Cons.IH [of w', unfolded h, OF Cons.prems]
  then show ?case
    unfolding apply_calls.simps w' w'' option.case .
qed

text \<open>
  Claim C9. Two successive calls of \<open>Scope\<close> with the same name on the same \<open>logger\<close>
  return two different pointers, and any sequence of logging calls leads from the same state
  to the same state, whichever of the two it is made on, and never panics.
\<close>

theorem Scope_twice_same_output:
  assumes "a < length (heap w)"
  shows "\<exists>w1 L1 w2 L2.
      Scope w (LoggerPtr a) n = Some (w1, L1)
      \<and> Scope w1 (LoggerPtr a) n = Some (w2, L2)
      \<and> L1 \<noteq> L2
      \<and> apply_calls w2 L1 cs = apply_calls w2 L2 cs
      \<and> (\<exists>w3. apply_calls w2 L1 cs = Some w3)"
proof -
  define l where "l = \<lparr>zl = zerolog_With (zl (heap w ! a)), scope = n\<rparr>"
  define w1 where "w1 = w\<lparr>heap := heap w @ [l]\<rparr>"
  define w2 where "w2 = w1\<lparr>heap := heap w1 @ [l]\<rparr>"
  have 1: "Scope w (LoggerPtr a) n = Some (w1, LoggerPtr (length (heap w)))"
    using assms by (simp add: logger_Scope_def deref_def w1_def l_def)
  have 2: "Scope w1 (LoggerPtr a) n = Some (w2, LoggerPtr (Suc (length (heap w))))"
    using assms by (simp add: logger_Scope_def deref_def w1_def w2_def l_def nth_append)
  have 3: "length (heap w) < length (heap w2)" "Suc (length (heap w)) < length (heap w2)"
    "heap w2 ! length (heap w) = heap w2 ! Suc (length (heap w))"
    by (simp_all add: w2_def w1_def nth_append)
  from apply_calls_same_struct [OF 3, of cs]
  have 4: "apply_calls w2 (LoggerPtr (length (heap w))) cs =
      apply_calls w2 (LoggerPtr (Suc (length (heap w)))) cs"
    and 5: "\<exists>w3. apply_calls w2 (LoggerPtr (length (heap w))) cs = Some w3"
    by blast+
  have 6: "LoggerPtr (length (heap w)) \<noteq> LoggerPtr (Suc (length (heap w)))"
    by simp
  from 1 2 4 5 6 show ?thesis by blast
qed

theorem Scope_twice_same_output_witness:
  "0 < length (heap (world0\<lparr>heap := [main_logger LevelInfo]\<rparr>))
   \<and> (\<exists>w1 L1 w2 L2.
      Scope (world0\<lparr>heap := [main_logger LevelInfo]\<rparr>) (LoggerPtr 0) ''db'' = Some (w1, L1)
      \<and> Scope w1 (LoggerPtr 0) ''db'' = Some (w2, L2)
      \<and> L1 \<noteq> L2
      \<and> apply_calls w2 L1 [InfoCall ''query executed'', DebugCall ''rows'' ''3''] =
          apply_calls w2 L2 [InfoCall ''query executed'', DebugCall ''rows'' ''3''])"
proof -
  have A: "0 < length (heap (world0\<lparr>heap := [main_logger LevelInfo]\<rparr>))" by simp
  from A Scope_twice_same_output [OF A, of "''db''" "[InfoCall ''query executed'', DebugCall ''rows'' ''3'']"]
  show ?thesis by blast
qed

section \<open>The no-op logger\<close>

text \<open>
  Claim C7. Every method of \<open>NoopLogger\<close> returns without panic and leaves the state as it
  is, for every argument; \<open>Scope\<close> returns its receiver, so a logging call on the result
  of \<open>Scope\<close> is silent as well. The same holds of the pointer that \<open>NewNoop\<close> returns.
\<close>

theorem Noop_silent:
  "Info w (NoopLoggerPtr p) m = Some w
   \<and> Event w (NoopLoggerPtr p) m = Some w
   \<and> Debug w (NoopLoggerPtr p) k v = Some w
   \<and> Error w (NoopLoggerPtr p) e m = Some w
   \<and> Scope w (NoopLoggerPtr p) n = Some (w, NoopLoggerPtr p)
   \<and> (case Scope w (NoopLoggerPtr p) n of None \<Rightarrow> None | Some (w', L) \<Rightarrow> Info w' L m) = Some w
   \<and> (case NewNoop w of (w', L) \<Rightarrow>
         Info w' L m = Some w' \<and> Event w' L m = Some w' \<and> Debug w' L k v = Some w'
         \<and> Error w' L e m = Some w' \<and> Scope w' L n = Some (w', L)
         \<and> written w' = written w \<and> heap w' = heap w \<and> fsops w' = fsops w)"
  by (simp add: NoopLogger_Info_def NoopLogger_Event_def NoopLogger_Debug_def NoopLogger_Error_def
      NoopLogger_Scope_def NewNoop_def)

section \<open>The level formatter of the console\<close>

lemma ToUpper_ascii: "isASCII s \<Longrightarrow> ToUpper mapUpper s = map upperByte s"
  unfolding ToUpper_def
  by (auto simp: list_ex_iff upperByte_def intro: map_idI [symmetric])

text \<open>
  Claim C8. \<open>FormatLevel\<close> maps \<open>event\<close>, \<open>info\<close>, \<open>debug\<close>, \<open>error\<close> and
  \<open>warn\<close> to \<open>EVT\<close>, \<open>INF\<close>, \<open>DBG\<close>, \<open>ERR\<close> and \<open>WRN\<close> between the escape
  sequence of white, green, cyan, red and yellow and the reset sequence; every other string
  to its upper-cased form with nothing added; and every value that is no string to
  \<open>???\<close>.
\<close>

theorem FormatLevel_mapping:
  "FormatLevel mapUpper (StringVal ''event'') = CHR 0x1B # ''[37m'' @ ''EVT'' @ CHR 0x1B # ''[0m''
   \<and> FormatLevel mapUpper (StringVal ''info'') = CHR 0x1B # ''[32m'' @ ''INF'' @ CHR 0x1B # ''[0m''
   \<and> FormatLevel mapUpper (StringVal ''debug'') = CHR 0x1B # ''[36m'' @ ''DBG'' @ CHR 0x1B # ''[0m''
   \<and> FormatLevel mapUpper (StringVal ''error'') = CHR 0x1B # ''[31m'' @ ''ERR'' @ CHR 0x1B # ''[0m''
   \<and> FormatLevel mapUpper (StringVal ''warn'') = CHR 0x1B # ''[33m'' @ ''WRN'' @ CHR 0x1B # ''[0m''
   \<and> (s \<notin> {''event'', ''info'', ''debug'', ''error'', ''warn''} \<longrightarrow>
         FormatLevel mapUpper (StringVal s) = ToUpper mapUpper s
         \<and> (isASCII s \<longrightarrow> FormatLevel mapUpper (StringVal s) = map upperByte s))
   \<and> FormatLevel mapUpper (IntVal i) = ''???''
   \<and> FormatLevel mapUpper (BoolVal b) = ''???''
   \<and> FormatLevel mapUpper NilVal = ''???''
   \<and> ((\<forall>t. x \<noteq> StringVal t) \<longrightarrow> FormatLevel mapUpper x = ''???'')"
proof -
  have "(\<forall>t. x \<noteq> StringVal t) \<longrightarrow> FormatLevel mapUpper x = ''???''"
    by (cases x) simp_all
  moreover have "s \<notin> {''event'', ''info'', ''debug'', ''error'', ''warn''} \<longrightarrow>
         FormatLevel mapUpper (StringVal s) = ToUpper mapUpper s
         \<and> (isASCII s \<longrightarrow> FormatLevel mapUpper (StringVal s) = map upperByte s)"
    by (simp add: ToUpper_ascii)
  ultimately show ?thesis
    by (simp add: colorWhite_def colorGreen_def colorCyan_def colorRed_def colorYellow_def
        colorReset_def)
qed

theorem FormatLevel_mapping_witness:
  "''fatal'' \<notin> {''event'', ''info'', ''debug'', ''error'', ''warn''} \<and> isASCII ''fatal''
   \<and> (\<forall>t. IntVal 3 \<noteq> StringVal t)
   \<and> FormatLevel (\<lambda>s. s) (StringVal ''fatal'') = ''FATAL''
   \<and> FormatLevel (\<lambda>s. s) (IntVal 3) = ''???''"
proof -
  have a: "''fatal'' \<notin> {''event'', ''info'', ''debug'', ''error'', ''warn''}" by simp
  have b: "isASCII ''fatal''" by (simp add: isASCII_def RuneSelf_def)
  have c: "\<forall>t. IntVal 3 \<noteq> StringVal t" by simp
  have d: "map upperByte ''fatal'' = ''FATAL''"
    by (simp add: upperByte_def isLowerByte_def char_of_eq_iff)
  from FormatLevel_mapping [of "\<lambda>s. s" "''fatal''" 3 _ "IntVal 3"] a b c d
  show ?thesis by simp
qed

end
